theory Spec2Isabelle
  imports Complex_Main
begin

section \<open>Data model (drizzle/schema.ts)\<close>

text \<open>
  The tables of the schema are lists of rows. Columns that no modelled function reads are
  left out: the \<open>createdAt\<close>/\<open>updatedAt\<close> timestamps of products and stock movements.
  The SQL \<open>int\<close> columns and the JavaScript numbers held in them are unbounded integers
  here; range errors and the foreign-key checks of the store are not modelled.
\<close>

datatype MovementType = Purchase | Sale | Adjustment | Return | Damage

record Product =
  p_id :: int
  p_name :: string
  p_sku :: string
  p_description :: "string option"
  p_categoryId :: int
  p_quantity :: int
  p_unitPrice :: string
  p_minStockLevel :: int

text \<open>\<open>Partial<InsertProduct>\<close>: every field may be absent.\<close>

record PartialProduct =
  u_name :: "string option"
  u_sku :: "string option"
  u_description :: "string option option"
  u_categoryId :: "int option"
  u_quantity :: "int option"
  u_unitPrice :: "string option"
  u_minStockLevel :: "int option"

record InsertStockMovement =
  i_productId :: int
  i_movementType :: MovementType
  i_quantity :: int
  i_reason :: "string option"

record StockMovement =
  m_id :: int
  m_productId :: int
  m_movementType :: MovementType
  m_quantity :: int
  m_reason :: "string option"

record StockMovementCreateInput =
  productId :: int
  movementType :: MovementType
  quantity :: int
  reason :: "string option"

datatype NotificationType = stock_low | stock_critical | stock_out | supplier_alert | system

text \<open>The column \<open>read\<close> is the enum \<open>"true" | "false"\<close>; it is a \<open>bool\<close> here.\<close>

record Notification =
  n_id :: int
  n_userId :: int
  n_type :: NotificationType
  n_title :: string
  n_message :: string
  n_productId :: "int option"
  n_supplierId :: "int option"
  n_read :: bool
  n_createdAt :: nat

record InsertNotification =
  in_userId :: int
  in_type :: NotificationType
  in_title :: string
  in_message :: string
  in_productId :: "int option"
  in_supplierId :: "int option"
  in_read :: "bool option"

section \<open>Errors, events and the server state\<close>

text \<open>One constructor for each \<open>throw\<close> of the modelled code, carrying what its message
  interpolates. \<open>EmitFailed\<close> stands for any exception raised by socket.io's \<open>emit\<close>.\<close>

datatype Error =
    DatabaseConnectionFailed
  | DatabaseNotAvailable
  | ProductNotFound int
  | SkuAlreadyExists string
  | FailedToUpdateProduct
  | InvalidQuantity
  | InvalidMovementType MovementType
  | InsufficientStock int int
  | FailedToCreateStockMovement
  | FailedToCreateNotification
  | NotificationNotFound int
  | EmitFailed

text \<open>The objects handed to \<open>io.emit\<close>; the \<open>timestamp: new Date()\<close> field is left out.\<close>

datatype Payload =
    AlertPayload string string string int "string option"
      \<comment> \<open>type, title, message, productId, severity\<close>
  | MovementPayload int string MovementType int "string option"
      \<comment> \<open>productId, productName, movementType, quantity, reason\<close>

record SocketIOServer =
  emitThrows :: bool
  emitted :: "(string \<times> Payload) list"

datatype LogEntry = ConsoleLog string | ConsoleError string Error

text \<open>
  The state the services act on: the database behind \<open>getDb()\<close> (which yields null when
  \<open>dbAvailable\<close> is false), the singleton \<open>websocketService\<close> (its field \<open>io\<close> is null
  until \<open>initialize\<close>), and the console.
\<close>

record Server =
  dbAvailable :: bool
  products :: "Product list"
  stockMovements :: "StockMovement list"
  stockMovementsAutoInc :: int
  notifications :: "Notification list"
  notificationsAutoInc :: int
  io :: "SocketIOServer option"
  console :: "LogEntry list"

section \<open>Strings\<close>

text \<open>A JavaScript number that holds an integer, as a template literal prints it.\<close>

definition digit :: "nat \<Rightarrow> char" where
  "digit k = char_of (k + 48)"

function digits :: "nat \<Rightarrow> string" where
  "digits n = (if n div 10 = 0 then [digit n] else digits (n div 10) @ [digit (n mod 10)])"
  by pat_completeness auto
termination
  by (relation "measure id") auto

declare digits.simps [simp del]

definition numberToString :: "int \<Rightarrow> string" where
  "numberToString i = (if i < 0 then CHR ''-'' # digits (nat (- i)) else digits (nat i))"

text \<open>
  \<open>String.prototype.trim\<close>. A \<open>char\<close> is one code unit below 256, so the white space
  is U+0009 to U+000D, the space and the no-break space U+00A0; the white space code points
  above U+00FF have no \<open>char\<close>.
\<close>

definition isWhiteSpace :: "char \<Rightarrow> bool" where
  "isWhiteSpace c =
     (c \<in> set [CHR 0x09, CHR 0x0A, CHR 0x0B, CHR 0x0C, CHR 0x0D, CHR '' '', CHR 0xA0])"

definition trim :: "string \<Rightarrow> string" where
  "trim s = rev (dropWhile isWhiteSpace (rev (dropWhile isWhiteSpace s)))"

section \<open>productRepository\<close>

definition productRepository_findById :: "int \<Rightarrow> Server \<Rightarrow> Error + Product option" where
  "productRepository_findById ident s =
     (if \<not> dbAvailable s then Inl DatabaseConnectionFailed
      else Inr (find (\<lambda>p. p_id p = ident) (products s)))"

definition productRepository_findBySku :: "string \<Rightarrow> Server \<Rightarrow> Error + Product option" where
  "productRepository_findBySku sku s =
     (if \<not> dbAvailable s then Inl DatabaseConnectionFailed
      else Inr (find (\<lambda>p. p_sku p = sku) (products s)))"

text \<open>\<open>db.update(products).set(data).where(eq(products.id, id))\<close>\<close>

definition setPartial :: "PartialProduct \<Rightarrow> Product \<Rightarrow> Product" where
  "setPartial d p =
     p\<lparr> p_name := (case u_name d of None \<Rightarrow> p_name p | Some v \<Rightarrow> v),
        p_sku := (case u_sku d of None \<Rightarrow> p_sku p | Some v \<Rightarrow> v),
        p_description := (case u_description d of None \<Rightarrow> p_description p | Some v \<Rightarrow> v),
        p_categoryId := (case u_categoryId d of None \<Rightarrow> p_categoryId p | Some v \<Rightarrow> v),
        p_quantity := (case u_quantity d of None \<Rightarrow> p_quantity p | Some v \<Rightarrow> v),
        p_unitPrice := (case u_unitPrice d of None \<Rightarrow> p_unitPrice p | Some v \<Rightarrow> v),
        p_minStockLevel := (case u_minStockLevel d of None \<Rightarrow> p_minStockLevel p | Some v \<Rightarrow> v) \<rparr>"

definition db_update_products :: "int \<Rightarrow> PartialProduct \<Rightarrow> Server \<Rightarrow> Server" where
  "db_update_products ident d s =
     s\<lparr> products := map (\<lambda>p. if p_id p = ident then setPartial d p else p) (products s) \<rparr>"

definition productRepository_update ::
  "int \<Rightarrow> PartialProduct \<Rightarrow> Server \<Rightarrow> (Error + Product) \<times> Server" where
  "productRepository_update ident d s =
     (if \<not> dbAvailable s then (Inl DatabaseConnectionFailed, s)
      else case productRepository_findById ident s of
        Inl e \<Rightarrow> (Inl e, s)
      | Inr None \<Rightarrow> (Inl (ProductNotFound ident), s)
      | Inr (Some existing) \<Rightarrow>
          (let conflict =
             (case u_sku d of
                None \<Rightarrow> None
              | Some sku \<Rightarrow>
                  if sku \<noteq> [] \<and> sku \<noteq> p_sku existing
                  then (case productRepository_findBySku sku s of
                          Inl e \<Rightarrow> Some e
                        | Inr None \<Rightarrow> None
                        | Inr (Some c) \<Rightarrow> Some (SkuAlreadyExists sku))
                  else None)
           in case conflict of
                Some e \<Rightarrow> (Inl e, s)
              | None \<Rightarrow>
                  (let s1 = db_update_products ident d s
                   in case productRepository_findById ident s1 of
                        Inl e \<Rightarrow> (Inl e, s1)
                      | Inr None \<Rightarrow> (Inl FailedToUpdateProduct, s1)
                      | Inr (Some updated) \<Rightarrow> (Inr updated, s1))))"

section \<open>stockMovementRepository\<close>

definition stockMovementRepository_findById ::
  "int \<Rightarrow> Server \<Rightarrow> Error + StockMovement option" where
  "stockMovementRepository_findById ident s =
     (if \<not> dbAvailable s then Inl DatabaseConnectionFailed
      else Inr (find (\<lambda>m. m_id m = ident) (stockMovements s)))"

text \<open>\<open>db.insert(stockMovements).values(data)\<close>: the row takes the next auto-increment id.\<close>

definition insertedRow :: "InsertStockMovement \<Rightarrow> Server \<Rightarrow> StockMovement" where
  "insertedRow d s =
     \<lparr> m_id = stockMovementsAutoInc s, m_productId = i_productId d,
       m_movementType = i_movementType d, m_quantity = i_quantity d, m_reason = i_reason d \<rparr>"

definition db_insert_stockMovements :: "InsertStockMovement \<Rightarrow> Server \<Rightarrow> Server" where
  "db_insert_stockMovements d s =
     s\<lparr> stockMovements := stockMovements s @ [insertedRow d s],
        stockMovementsAutoInc := stockMovementsAutoInc s + 1 \<rparr>"

text \<open>After the insert, \<open>create\<close> reads back \<open>this.findById(data.productId)\<close>.\<close>

definition stockMovementRepository_create ::
  "InsertStockMovement \<Rightarrow> Server \<Rightarrow> (Error + StockMovement) \<times> Server" where
  "stockMovementRepository_create d s =
     (if \<not> dbAvailable s then (Inl DatabaseConnectionFailed, s)
      else let s1 = db_insert_stockMovements d s
           in case stockMovementRepository_findById (i_productId d) s1 of
                Inl e \<Rightarrow> (Inl e, s1)
              | Inr None \<Rightarrow> (Inl FailedToCreateStockMovement, s1)
              | Inr (Some created) \<Rightarrow> (Inr created, s1))"

section \<open>stockMovementService.recordMovement\<close>

definition validTypes :: "MovementType list" where
  "validTypes = [Purchase, Sale, Adjustment, Return, Damage]"

text \<open>The \<open>switch\<close> that computes \<open>newQuantity\<close> from \<open>product.quantity\<close>.\<close>

definition newQuantity :: "Product \<Rightarrow> StockMovementCreateInput \<Rightarrow> int" where
  "newQuantity product d =
     (case movementType d of
        Purchase \<Rightarrow> p_quantity product + quantity d
      | Return \<Rightarrow> p_quantity product + quantity d
      | Sale \<Rightarrow> p_quantity product - quantity d
      | Damage \<Rightarrow> p_quantity product - quantity d
      | Adjustment \<Rightarrow> quantity d)"

definition insertData :: "Product \<Rightarrow> StockMovementCreateInput \<Rightarrow> InsertStockMovement" where
  "insertData product d =
     \<lparr> i_productId = productId d,
       i_movementType = movementType d,
       i_quantity = (if movementType d = Adjustment then newQuantity product d else quantity d),
       i_reason = map_option trim (reason d) \<rparr>"

definition quantityOnly :: "int \<Rightarrow> PartialProduct" where
  "quantityOnly q =
     \<lparr> u_name = None, u_sku = None, u_description = None, u_categoryId = None,
       u_quantity = Some q, u_unitPrice = None, u_minStockLevel = None \<rparr>"

definition recordMovement ::
  "StockMovementCreateInput \<Rightarrow> Server \<Rightarrow> (Error + StockMovement) \<times> Server" where
  "recordMovement d s =
     (case productRepository_findById (productId d) s of
        Inl e \<Rightarrow> (Inl e, s)
      | Inr None \<Rightarrow> (Inl (ProductNotFound (productId d)), s)
      | Inr (Some product) \<Rightarrow>
          if quantity d \<le> 0 then (Inl InvalidQuantity, s)
          else if movementType d \<notin> set validTypes
          then (Inl (InvalidMovementType (movementType d)), s)
          else if newQuantity product d < 0
          then (Inl (InsufficientStock (p_quantity product) (quantity d)), s)
          else (case stockMovementRepository_create (insertData product d) s of
                  (Inl e, s1) \<Rightarrow> (Inl e, s1)
                | (Inr movement, s1) \<Rightarrow>
                    (case productRepository_update (productId d)
                            (quantityOnly (newQuantity product d)) s1 of
                       (Inl e, s2) \<Rightarrow> (Inl e, s2)
                     | (Inr updated, s2) \<Rightarrow> (Inr movement, s2))))"

section \<open>websocketService (class WebSocketService)\<close>

text \<open>\<open>this.io.emit(event, payload)\<close>: either the library call raises, or the event goes out.\<close>

definition io_emit :: "string \<Rightarrow> Payload \<Rightarrow> SocketIOServer \<Rightarrow> Error + SocketIOServer" where
  "io_emit event payload srv =
     (if emitThrows srv then Inl EmitFailed
      else Inr (srv\<lparr> emitted := emitted srv @ [(event, payload)] \<rparr>))"

definition dq :: string where
  "dq = [CHR 0x22]"

definition lowStockPayload :: "int \<Rightarrow> string \<Rightarrow> int \<Rightarrow> int \<Rightarrow> Payload" where
  "lowStockPayload pid productName currentQuantity minLevel =
     AlertPayload ''stock_low'' (''Low Stock: '' @ productName)
       (''Product '' @ dq @ productName @ dq @ '' has '' @ numberToString currentQuantity
          @ '' units, below minimum level of '' @ numberToString minLevel)
       pid None"

definition broadcastLowStockAlert ::
  "int \<Rightarrow> string \<Rightarrow> int \<Rightarrow> int \<Rightarrow> Server \<Rightarrow> (Error + unit) \<times> Server" where
  "broadcastLowStockAlert pid productName currentQuantity minLevel s =
     (case io s of
        None \<Rightarrow> (Inr (), s)
      | Some srv \<Rightarrow>
          (case io_emit ''notification:stock_low''
                  (lowStockPayload pid productName currentQuantity minLevel) srv of
             Inl e \<Rightarrow> (Inl e, s)
           | Inr srv' \<Rightarrow>
               (Inr (), s\<lparr> io := Some srv',
                   console := console s @
                     [ConsoleLog (''[WebSocket] Broadcasted low stock alert for product ''
                        @ numberToString pid)] \<rparr>)))"

definition criticalStockPayload :: "int \<Rightarrow> string \<Rightarrow> Payload" where
  "criticalStockPayload pid productName =
     AlertPayload ''stock_critical'' (''CRITICAL: '' @ productName @ '' Out of Stock!'')
       (''Product '' @ dq @ productName @ dq @ '' is out of stock or critically low!'')
       pid (Some ''critical'')"

definition broadcastCriticalStockAlert ::
  "int \<Rightarrow> string \<Rightarrow> Server \<Rightarrow> (Error + unit) \<times> Server" where
  "broadcastCriticalStockAlert pid productName s =
     (case io s of
        None \<Rightarrow> (Inr (), s)
      | Some srv \<Rightarrow>
          (case io_emit ''notification:stock_critical''
                  (criticalStockPayload pid productName) srv of
             Inl e \<Rightarrow> (Inl e, s)
           | Inr srv' \<Rightarrow>
               (Inr (), s\<lparr> io := Some srv',
                   console := console s @
                     [ConsoleLog (''[WebSocket] Broadcasted critical stock alert for product ''
                        @ numberToString pid)] \<rparr>)))"

definition broadcastStockMovement ::
  "int \<Rightarrow> string \<Rightarrow> MovementType \<Rightarrow> int \<Rightarrow> string option \<Rightarrow> Server
     \<Rightarrow> (Error + unit) \<times> Server" where
  "broadcastStockMovement pid productName mt qty rsn s =
     (case io s of
        None \<Rightarrow> (Inr (), s)
      | Some srv \<Rightarrow>
          (case io_emit ''stock:movement'' (MovementPayload pid productName mt qty rsn) srv of
             Inl e \<Rightarrow> (Inl e, s)
           | Inr srv' \<Rightarrow>
               (Inr (), s\<lparr> io := Some srv',
                   console := console s @
                     [ConsoleLog (''[WebSocket] Broadcasted stock movement for product ''
                        @ numberToString pid)] \<rparr>)))"

section \<open>stockAlertService\<close>

text \<open>
  The body of the \<open>try\<close> block of \<open>checkAndAlertStockLevel\<close>. The product
  \<open>minLevel * 0.2\<close> is taken exactly, over the rationals; the rounding of the
  source's double-precision multiplication is not modelled.
\<close>

definition checkAndAlertStockLevel_try :: "int \<Rightarrow> Server \<Rightarrow> (Error + unit) \<times> Server" where
  "checkAndAlertStockLevel_try pid s =
     (case productRepository_findById pid s of
        Inl e \<Rightarrow> (Inl e, s)
      | Inr None \<Rightarrow> (Inr (), s)
      | Inr (Some product) \<Rightarrow>
          (let qty = p_quantity product; minLevel = p_minStockLevel product
           in if qty = 0 then broadcastCriticalStockAlert pid (p_name product) s
              else if (of_int qty :: rat) < of_int minLevel * (2 / 10)
              then broadcastCriticalStockAlert pid (p_name product) s
              else if qty < minLevel
              then broadcastLowStockAlert pid (p_name product) qty minLevel s
              else (Inr (), s)))"

text \<open>The \<open>catch\<close> clause logs the error with \<open>console.error\<close> and returns.\<close>

definition checkAndAlertStockLevel :: "int \<Rightarrow> Server \<Rightarrow> (Error + unit) \<times> Server" where
  "checkAndAlertStockLevel pid s =
     (case checkAndAlertStockLevel_try pid s of
        (Inl e, s') \<Rightarrow>
          (Inr (), s'\<lparr> console := console s' @
             [ConsoleError (''[StockAlert] Error checking stock for product ''
                @ numberToString pid @ '':'') e] \<rparr>)
      | (Inr u, s') \<Rightarrow> (Inr u, s'))"

definition recordMovementAndAlert_try ::
  "int \<Rightarrow> MovementType \<Rightarrow> int \<Rightarrow> string option \<Rightarrow> Server \<Rightarrow> (Error + unit) \<times> Server" where
  "recordMovementAndAlert_try pid mt qty rsn s =
     (case stockMovementRepository_create
             \<lparr> i_productId = pid, i_movementType = mt, i_quantity = qty, i_reason = rsn \<rparr> s of
        (Inl e, s1) \<Rightarrow> (Inl e, s1)
      | (Inr created, s1) \<Rightarrow>
          (case productRepository_findById pid s1 of
             Inl e \<Rightarrow> (Inl e, s1)
           | Inr None \<Rightarrow> (Inr (), s1)
           | Inr (Some product) \<Rightarrow>
               (case broadcastStockMovement pid (p_name product) mt qty rsn s1 of
                  (Inl e, s2) \<Rightarrow> (Inl e, s2)
                | (Inr u, s2) \<Rightarrow> checkAndAlertStockLevel pid s2)))"

definition recordMovementAndAlert ::
  "int \<Rightarrow> MovementType \<Rightarrow> int \<Rightarrow> string option \<Rightarrow> Server \<Rightarrow> (Error + unit) \<times> Server" where
  "recordMovementAndAlert pid mt qty rsn s =
     (case recordMovementAndAlert_try pid mt qty rsn s of
        (Inl e, s') \<Rightarrow>
          (Inr (), s'\<lparr> console := console s' @
             [ConsoleError (''[StockAlert] Error recording movement for product ''
                @ numberToString pid @ '':'') e] \<rparr>)
      | (Inr u, s') \<Rightarrow> (Inr u, s'))"

section \<open>notificationRepository\<close>

text \<open>
  \<open>db.insert(notifications).values(data)\<close>: the row takes the next auto-increment id,
  the column default \<open>"false"\<close> where \<open>read\<close> is absent, and the time \<open>now\<close> of the store
  as \<open>createdAt\<close>.
\<close>

definition db_insert_notifications :: "InsertNotification \<Rightarrow> nat \<Rightarrow> Server \<Rightarrow> Server" where
  "db_insert_notifications d now s =
     s\<lparr> notifications := notifications s @
          [\<lparr> n_id = notificationsAutoInc s, n_userId = in_userId d, n_type = in_type d,
             n_title = in_title d, n_message = in_message d, n_productId = in_productId d,
             n_supplierId = in_supplierId d,
             n_read = (case in_read d of None \<Rightarrow> False | Some r \<Rightarrow> r),
             n_createdAt = now \<rparr>],
        notificationsAutoInc := notificationsAutoInc s + 1 \<rparr>"

text \<open>\<open>orderBy(desc(notifications.createdAt))\<close>; SQL leaves the order of rows with equal
  keys open, here the later row comes first.\<close>

definition orderByDescCreatedAt :: "Notification list \<Rightarrow> Notification list" where
  "orderByDescCreatedAt rows = rev (sort_key n_createdAt rows)"

definition notificationRepository_create ::
  "InsertNotification \<Rightarrow> nat \<Rightarrow> Server \<Rightarrow> (Error + Notification) \<times> Server" where
  "notificationRepository_create d now s =
     (if \<not> dbAvailable s then (Inl DatabaseNotAvailable, s)
      else let s1 = db_insert_notifications d now s;
               result = take 1 (orderByDescCreatedAt
                          (filter (\<lambda>n. n_userId n = in_userId d \<and> n_type n = in_type d
                                       \<and> n_title n = in_title d)
                             (notifications s1)))
           in case result of
                [] \<Rightarrow> (Inl FailedToCreateNotification, s1)
              | r # rest \<Rightarrow> (Inr r, s1))"

definition notificationRepository_markAsRead ::
  "int \<Rightarrow> Server \<Rightarrow> (Error + unit) \<times> Server" where
  "notificationRepository_markAsRead notificationId s =
     (if \<not> dbAvailable s then (Inl DatabaseNotAvailable, s)
      else (Inr (),
            s\<lparr> notifications :=
                 map (\<lambda>n. if n_id n = notificationId then n\<lparr> n_read := True \<rparr> else n)
                   (notifications s) \<rparr>))"

definition notificationRepository_markAllAsRead ::
  "int \<Rightarrow> Server \<Rightarrow> (Error + unit) \<times> Server" where
  "notificationRepository_markAllAsRead userId s =
     (if \<not> dbAvailable s then (Inl DatabaseNotAvailable, s)
      else (Inr (),
            s\<lparr> notifications :=
                 map (\<lambda>n. if n_userId n = userId \<and> n_read n = False
                           then n\<lparr> n_read := True \<rparr> else n)
                   (notifications s) \<rparr>))"

definition notificationRepository_delete ::
  "int \<Rightarrow> Server \<Rightarrow> (Error + bool) \<times> Server" where
  "notificationRepository_delete notificationId s =
     (if \<not> dbAvailable s then (Inl DatabaseNotAvailable, s)
      else case take 1 (filter (\<lambda>n. n_id n = notificationId) (notifications s)) of
             [] \<Rightarrow> (Inl (NotificationNotFound notificationId), s)
           | r # rest \<Rightarrow>
               (Inr True,
                s\<lparr> notifications :=
                     filter (\<lambda>n. n_id n \<noteq> notificationId) (notifications s) \<rparr>))"

section \<open>notificationService\<close>

definition createLowStockNotification ::
  "int \<Rightarrow> int \<Rightarrow> string \<Rightarrow> int \<Rightarrow> int \<Rightarrow> nat \<Rightarrow> Server \<Rightarrow> (Error + Notification) \<times> Server" where
  "createLowStockNotification userId pid productName currentQuantity minLevel =
     notificationRepository_create
       \<lparr> in_userId = userId, in_type = stock_low,
         in_title = ''Low Stock: '' @ productName,
         in_message = ''Product '' @ dq @ productName @ dq @ '' has ''
            @ numberToString currentQuantity @ '' units, below minimum level of ''
            @ numberToString minLevel,
         in_productId = Some pid, in_supplierId = None, in_read = Some False \<rparr>"

definition createCriticalStockNotification ::
  "int \<Rightarrow> int \<Rightarrow> string \<Rightarrow> nat \<Rightarrow> Server \<Rightarrow> (Error + Notification) \<times> Server" where
  "createCriticalStockNotification userId pid productName =
     notificationRepository_create
       \<lparr> in_userId = userId, in_type = stock_critical,
         in_title = ''Critical Stock: '' @ productName,
         in_message = ''Product '' @ dq @ productName @ dq
            @ '' is out of stock or critically low!'',
         in_productId = Some pid, in_supplierId = None, in_read = Some False \<rparr>"

definition createSupplierAlertNotification ::
  "int \<Rightarrow> int \<Rightarrow> string \<Rightarrow> string \<Rightarrow> nat \<Rightarrow> Server \<Rightarrow> (Error + Notification) \<times> Server" where
  "createSupplierAlertNotification userId supplierId supplierName message =
     notificationRepository_create
       \<lparr> in_userId = userId, in_type = supplier_alert,
         in_title = ''Supplier Alert: '' @ supplierName,
         in_message = message,
         in_productId = None, in_supplierId = Some supplierId, in_read = Some False \<rparr>"

definition createSystemNotification ::
  "int \<Rightarrow> string \<Rightarrow> string \<Rightarrow> nat \<Rightarrow> Server \<Rightarrow> (Error + Notification) \<times> Server" where
  "createSystemNotification userId title message =
     notificationRepository_create
       \<lparr> in_userId = userId, in_type = system, in_title = title, in_message = message,
         in_productId = None, in_supplierId = None, in_read = Some False \<rparr>"

definition markAsRead :: "int \<Rightarrow> Server \<Rightarrow> (Error + unit) \<times> Server" where
  "markAsRead notificationId = notificationRepository_markAsRead notificationId"

definition markAllAsRead :: "int \<Rightarrow> Server \<Rightarrow> (Error + unit) \<times> Server" where
  "markAllAsRead userId = notificationRepository_markAllAsRead userId"

definition deleteNotification :: "int \<Rightarrow> Server \<Rightarrow> (Error + bool) \<times> Server" where
  "deleteNotification notificationId = notificationRepository_delete notificationId"

text \<open>
  The calls of \<open>notificationService\<close> that write to the notification store, and the state
  each leaves behind (whether it returns or throws). The remaining methods
  (\<open>getUnreadNotifications\<close>, \<open>getRecentNotifications\<close>, \<open>getUnreadCount\<close>) only select,
  and \<open>notifyAdminsAboutCriticalEvent\<close> only writes to the console.
\<close>

datatype NotificationCall =
    CreateLowStockNotification int int string int int nat
  | CreateCriticalStockNotification int int string nat
  | CreateSupplierAlertNotification int int string string nat
  | CreateSystemNotification int string string nat
  | MarkAsRead int
  | MarkAllAsRead int
  | DeleteNotification int

fun notificationService_call :: "NotificationCall \<Rightarrow> Server \<Rightarrow> Server" where
  "notificationService_call (CreateLowStockNotification u p nm q m now) s =
     snd (createLowStockNotification u p nm q m now s)"
| "notificationService_call (CreateCriticalStockNotification u p nm now) s =
     snd (createCriticalStockNotification u p nm now s)"
| "notificationService_call (CreateSupplierAlertNotification u sp nm msg now) s =
     snd (createSupplierAlertNotification u sp nm msg now s)"
| "notificationService_call (CreateSystemNotification u t msg now) s =
     snd (createSystemNotification u t msg now s)"
| "notificationService_call (MarkAsRead i) s = snd (markAsRead i s)"
| "notificationService_call (MarkAllAsRead u) s = snd (markAllAsRead u s)"
| "notificationService_call (DeleteNotification i) s = snd (deleteNotification i s)"

fun notificationService_calls :: "NotificationCall list \<Rightarrow> Server \<Rightarrow> Server" where
  "notificationService_calls [] s = s"
| "notificationService_calls (c # cs) s =
     notificationService_calls cs (notificationService_call c s)"

text \<open>The primary key of \<open>notifications\<close>: ids are unique and below the auto-increment
  counter.\<close>

definition notificationsPrimaryKey :: "Server \<Rightarrow> bool" where
  "notificationsPrimaryKey s =
     (distinct (map n_id (notifications s))
      \<and> list_all (\<lambda>n. n_id n < notificationsAutoInc s) (notifications s))"

section \<open>Example states\<close>

definition widget :: Product where
  "widget = \<lparr> p_id = 1, p_name = ''Widget'', p_sku = ''W-1'', p_description = None,
      p_categoryId = 1, p_quantity = 10, p_unitPrice = ''9.99'', p_minStockLevel = 20 \<rparr>"

definition gadget :: Product where
  "gadget = \<lparr> p_id = 5, p_name = ''Gadget'', p_sku = ''G-5'', p_description = None,
      p_categoryId = 1, p_quantity = 10, p_unitPrice = ''4.50'', p_minStockLevel = 0 \<rparr>"

definition shop :: Server where
  "shop = \<lparr> dbAvailable = True, products = [widget, gadget], stockMovements = [],
      stockMovementsAutoInc = 1, notifications = [], notificationsAutoInc = 1,
      io = Some \<lparr> emitThrows = False, emitted = [] \<rparr>, console = [] \<rparr>"

definition backlog :: Server where
  "backlog = shop\<lparr> stockMovements :=
       [\<lparr> m_id = 1, m_productId = 5, m_movementType = Purchase, m_quantity = 10,
          m_reason = Some ''Initial stock purchase'' \<rparr>],
     stockMovementsAutoInc := 2 \<rparr>"

definition stocked :: "int \<Rightarrow> int \<Rightarrow> Server" where
  "stocked q m = shop\<lparr> products := [widget\<lparr> p_quantity := q, p_minStockLevel := m \<rparr>, gadget] \<rparr>"

definition inbox :: Server where
  "inbox = shop\<lparr> notifications :=
       [\<lparr> n_id = 1, n_userId = 7, n_type = stock_low, n_title = ''Low Stock: Widget'',
          n_message = ''low'', n_productId = Some 1, n_supplierId = None, n_read = True,
          n_createdAt = 10 \<rparr>,
        \<lparr> n_id = 2, n_userId = 7, n_type = system, n_title = ''Hello'',
          n_message = ''welcome'', n_productId = None, n_supplierId = None, n_read = False,
          n_createdAt = 11 \<rparr>],
     notificationsAutoInc := 3 \<rparr>"

section \<open>A relation between notification stores\<close>

text \<open>
  \<open>readStep s s'\<close>: the auto-increment counter has not gone back, and every row of \<open>s'\<close>
  is a row of \<open>s\<close> whose \<open>read\<close> flag is as it was or has become true, or carries an id
  handed out since \<open>s\<close>.
\<close>

definition readStep :: "Server \<Rightarrow> Server \<Rightarrow> bool" where
  "readStep s s' =
     (notificationsAutoInc s \<le> notificationsAutoInc s'
      \<and> (\<forall>n'\<in>set (notifications s').
            (\<exists>n\<in>set (notifications s). n' = n\<lparr> n_read := n_read n \<or> n_read n' \<rparr>)
            \<or> notificationsAutoInc s \<le> n_id n'))"

section \<open>Evaluation and helper lemmas\<close>

lemmas eval_defs =
  recordMovement_def productRepository_findById_def productRepository_findBySku_def
  productRepository_update_def db_update_products_def setPartial_def quantityOnly_def
  stockMovementRepository_create_def stockMovementRepository_findById_def
  db_insert_stockMovements_def insertedRow_def insertData_def newQuantity_def validTypes_def
  shop_def widget_def gadget_def backlog_def Let_def

lemma findById_after_update:
  "productRepository_findById ident (db_update_products ident d s) =
     map_sum id (map_option (setPartial d)) (productRepository_findById ident s)"
proof -
  have "find (\<lambda>p. p_id p = ident) (map (\<lambda>p. if p_id p = ident then setPartial d p else p) xs)
      = map_option (setPartial d) (find (\<lambda>p. p_id p = ident) xs)" for xs
    by (induction xs) (simp_all add: setPartial_def)
  then show ?thesis
    by (simp add: productRepository_findById_def db_update_products_def)
qed

lemma findById_after_insert:
  "productRepository_findById ident (db_insert_stockMovements d s) =
     productRepository_findById ident s"
  by (simp add: productRepository_findById_def db_insert_stockMovements_def)

lemma update_quantityOnly:
  assumes "productRepository_findById ident s = Inr (Some existing)"
  shows "productRepository_update ident (quantityOnly q) s =
           (Inr (setPartial (quantityOnly q) existing), db_update_products ident (quantityOnly q) s)"
proof -
  have av: "dbAvailable s"
    using assms by (auto simp: productRepository_findById_def split: if_splits)
  have "productRepository_findById ident (db_update_products ident (quantityOnly q) s)
          = Inr (Some (setPartial (quantityOnly q) existing))"
    by (simp add: findById_after_update assms)
  then show ?thesis
    using av assms by (simp add: productRepository_update_def quantityOnly_def Let_def)
qed

lemma create_cases:
  "stockMovementRepository_create d s = (r, s1) \<Longrightarrow>
     (\<not> dbAvailable s \<and> s1 = s \<and> r = Inl DatabaseConnectionFailed) \<or>
     (dbAvailable s \<and> s1 = db_insert_stockMovements d s \<and>
        (case find (\<lambda>m. m_id m = i_productId d) (stockMovements s1) of
           None \<Rightarrow> r = Inl FailedToCreateStockMovement
         | Some created \<Rightarrow> r = Inr created))"
  by (auto simp: stockMovementRepository_create_def stockMovementRepository_findById_def
        db_insert_stockMovements_def Let_def split: if_splits option.splits)

lemma recordMovement_success:
  assumes "recordMovement d s = (Inr movement, s')"
  shows "\<exists>product. productRepository_findById (productId d) s = Inr (Some product)
           \<and> 0 < quantity d \<and> 0 \<le> newQuantity product d
           \<and> stockMovementRepository_create (insertData product d) s =
                (Inr movement, db_insert_stockMovements (insertData product d) s)
           \<and> s' = db_update_products (productId d) (quantityOnly (newQuantity product d))
                    (db_insert_stockMovements (insertData product d) s)"
proof -
  obtain product where p: "productRepository_findById (productId d) s = Inr (Some product)"
    using assms by (auto simp: recordMovement_def split: sum.splits option.splits)
  have q: "0 < quantity d" and nq: "0 \<le> newQuantity product d"
    using assms p by (auto simp: recordMovement_def split: if_splits)
  obtain r s1 where c: "stockMovementRepository_create (insertData product d) s = (r, s1)"
    by (cases "stockMovementRepository_create (insertData product d) s")
  have r: "r = Inr movement"
    using assms p q nq c by (auto simp: recordMovement_def split: if_splits sum.splits prod.splits)
  have s1: "s1 = db_insert_stockMovements (insertData product d) s"
    using create_cases[OF c] r by auto
  have p1: "productRepository_findById (productId d) s1 = Inr (Some product)"
    using p unfolding s1 by (simp add: findById_after_insert)
  have "s' = db_update_products (productId d) (quantityOnly (newQuantity product d)) s1"
    using assms p q nq c r update_quantityOnly[OF p1]
    by (auto simp: recordMovement_def validTypes_def split: if_splits MovementType.splits)
  then show ?thesis using p q nq c r s1 by auto
qed

lemma recordMovement_found:
  assumes "productRepository_findById (productId d) s = Inr (Some product)"
  shows "recordMovement d s =
     (if quantity d \<le> 0 then (Inl InvalidQuantity, s)
      else if newQuantity product d < 0
      then (Inl (InsufficientStock (p_quantity product) (quantity d)), s)
      else (case stockMovementRepository_create (insertData product d) s of
              (Inl e, s1) \<Rightarrow> (Inl e, s1)
            | (Inr movement, s1) \<Rightarrow>
                (case productRepository_update (productId d)
                        (quantityOnly (newQuantity product d)) s1 of
                   (Inl e, s2) \<Rightarrow> (Inl e, s2)
                 | (Inr updated, s2) \<Rightarrow> (Inr movement, s2))))"
  using assms by (cases "movementType d") (simp_all add: recordMovement_def validTypes_def)

lemma recordMovement_cases:
  assumes "recordMovement d s = (r, s')"
  shows "(s' = s \<and> (r = Inl DatabaseConnectionFailed \<or> r = Inl (ProductNotFound (productId d))
            \<or> r = Inl InvalidQuantity
            \<or> (\<exists>product. productRepository_findById (productId d) s = Inr (Some product)
                  \<and> r = Inl (InsufficientStock (p_quantity product) (quantity d)))))
       \<or> (\<exists>product. productRepository_findById (productId d) s = Inr (Some product)
             \<and> r = Inl FailedToCreateStockMovement
             \<and> s' = db_insert_stockMovements (insertData product d) s)
       \<or> (\<exists>product movement. productRepository_findById (productId d) s = Inr (Some product)
             \<and> r = Inr movement
             \<and> s' = db_update_products (productId d) (quantityOnly (newQuantity product d))
                      (db_insert_stockMovements (insertData product d) s))"
proof (cases r)
  case (Inr movement)
  with recordMovement_success[of d s movement s'] assms show ?thesis by auto
next
  case (Inl e)
  show ?thesis
  proof (cases "productRepository_findById (productId d) s")
    case (Inl e')
    then have "e' = DatabaseConnectionFailed"
      by (auto simp: productRepository_findById_def split: if_splits)
    with Inl assms \<open>r = Inl e\<close> show ?thesis by (auto simp: recordMovement_def)
  next
    case (Inr po)
    show ?thesis
    proof (cases po)
      case None
      with Inr assms show ?thesis by (auto simp: recordMovement_def)
    next
      case (Some product)
      note p = Inr[unfolded Some]
      have av: "dbAvailable s"
        using p by (auto simp: productRepository_findById_def split: if_splits)
      show ?thesis
      proof (cases "quantity d \<le> 0 \<or> newQuantity product d < 0")
        case True
        with p assms show ?thesis
          by (auto simp: recordMovement_found[OF p] split: if_splits)
      next
        case False
        obtain rc s1 where c: "stockMovementRepository_create (insertData product d) s = (rc, s1)"
          by (cases "stockMovementRepository_create (insertData product d) s")
        from create_cases[OF c] av
        have s1: "s1 = db_insert_stockMovements (insertData product d) s"
          and rc: "rc = Inl FailedToCreateStockMovement \<or> (\<exists>m. rc = Inr m)"
          by (auto split: option.splits)
        have p1: "productRepository_findById (productId d) s1 = Inr (Some product)"
          using p unfolding s1 by (simp add: findById_after_insert)
        from rc show ?thesis
        proof
          assume "rc = Inl FailedToCreateStockMovement"
          with False p c s1 assms show ?thesis
            by (auto simp: recordMovement_found[OF p])
        next
          assume "\<exists>m. rc = Inr m"
          then obtain m where "rc = Inr m" ..
          with False p c assms update_quantityOnly[OF p1] \<open>r = Inl e\<close> show ?thesis
            by (auto simp: recordMovement_found[OF p])
        qed
      qed
    qed
  qed
qed

lemma broadcastCritical_frame:
  "dbAvailable (snd (broadcastCriticalStockAlert pid nm s)) = dbAvailable s"
  "products (snd (broadcastCriticalStockAlert pid nm s)) = products s"
  "stockMovements (snd (broadcastCriticalStockAlert pid nm s)) = stockMovements s"
  by (auto simp: broadcastCriticalStockAlert_def split: option.splits sum.splits)

lemma broadcastLow_frame:
  "dbAvailable (snd (broadcastLowStockAlert pid nm q m s)) = dbAvailable s"
  "products (snd (broadcastLowStockAlert pid nm q m s)) = products s"
  "stockMovements (snd (broadcastLowStockAlert pid nm q m s)) = stockMovements s"
  by (auto simp: broadcastLowStockAlert_def split: option.splits sum.splits)

lemma broadcastMovement_frame:
  "dbAvailable (snd (broadcastStockMovement pid nm mt q r s)) = dbAvailable s"
  "products (snd (broadcastStockMovement pid nm mt q r s)) = products s"
  "stockMovements (snd (broadcastStockMovement pid nm mt q r s)) = stockMovements s"
  by (auto simp: broadcastStockMovement_def split: option.splits sum.splits)

lemma checkAndAlert_try_frame:
  "dbAvailable (snd (checkAndAlertStockLevel_try pid s)) = dbAvailable s"
  "products (snd (checkAndAlertStockLevel_try pid s)) = products s"
  "stockMovements (snd (checkAndAlertStockLevel_try pid s)) = stockMovements s"
  by (auto simp: checkAndAlertStockLevel_try_def Let_def broadcastCritical_frame broadcastLow_frame
        split: option.splits sum.splits)

lemma checkAndAlert_frame:
  "dbAvailable (snd (checkAndAlertStockLevel pid s)) = dbAvailable s"
  "products (snd (checkAndAlertStockLevel pid s)) = products s"
  "stockMovements (snd (checkAndAlertStockLevel pid s)) = stockMovements s"
  using checkAndAlert_try_frame[of pid s]
  by (auto simp: checkAndAlertStockLevel_def split: prod.splits sum.splits)

lemma create_frame:
  "dbAvailable (snd (stockMovementRepository_create d s)) = dbAvailable s"
  "products (snd (stockMovementRepository_create d s)) = products s"
  "stockMovements (snd (stockMovementRepository_create d s)) =
     (if dbAvailable s then stockMovements s @ [insertedRow d s] else stockMovements s)"
  by (auto simp: stockMovementRepository_create_def stockMovementRepository_findById_def
        db_insert_stockMovements_def Let_def split: option.splits)

lemma recordMovementAndAlert_try_frame:
  "products (snd (recordMovementAndAlert_try pid mt qty rsn s)) = products s"
  "stockMovements (snd (recordMovementAndAlert_try pid mt qty rsn s)) =
     (if dbAvailable s
      then stockMovements s @
        [\<lparr> m_id = stockMovementsAutoInc s, m_productId = pid, m_movementType = mt,
           m_quantity = qty, m_reason = rsn \<rparr>]
      else stockMovements s)"
proof -
  let ?d = "\<lparr> i_productId = pid, i_movementType = mt, i_quantity = qty, i_reason = rsn \<rparr>"
  obtain r s1 where c: "stockMovementRepository_create ?d s = (r, s1)"
    by (cases "stockMovementRepository_create ?d s")
  from create_frame[of ?d s] c
  have f: "products s1 = products s"
    "stockMovements s1 = (if dbAvailable s then stockMovements s @ [insertedRow ?d s] else stockMovements s)"
    by simp_all
  have g: "products (snd (recordMovementAndAlert_try pid mt qty rsn s)) = products s1
         \<and> stockMovements (snd (recordMovementAndAlert_try pid mt qty rsn s)) = stockMovements s1"
    using c
    by (auto simp: recordMovementAndAlert_try_def checkAndAlert_frame
          split: sum.splits option.splits prod.splits)
       (metis broadcastMovement_frame snd_conv)+
  show "products (snd (recordMovementAndAlert_try pid mt qty rsn s)) = products s"
    using f g by simp
  show "stockMovements (snd (recordMovementAndAlert_try pid mt qty rsn s)) =
     (if dbAvailable s
      then stockMovements s @
        [\<lparr> m_id = stockMovementsAutoInc s, m_productId = pid, m_movementType = mt,
           m_quantity = qty, m_reason = rsn \<rparr>]
      else stockMovements s)"
    using f g by (simp add: insertedRow_def)
qed

lemma checkAndAlert_emitted:
  assumes "productRepository_findById pid s = Inr (Some product)"
    and "io s = Some srv" and "\<not> emitThrows srv"
  shows "io (snd (checkAndAlertStockLevel pid s)) =
     Some (srv\<lparr> emitted := emitted srv @
       (if p_quantity product = 0
        then [(''notification:stock_critical'', criticalStockPayload pid (p_name product))]
        else if (of_int (p_quantity product) :: rat) < of_int (p_minStockLevel product) * (2 / 10)
        then [(''notification:stock_critical'', criticalStockPayload pid (p_name product))]
        else if p_quantity product < p_minStockLevel product
        then [(''notification:stock_low'',
               lowStockPayload pid (p_name product) (p_quantity product) (p_minStockLevel product))]
        else []) \<rparr>)"
  using assms
  by (simp add: checkAndAlertStockLevel_def checkAndAlertStockLevel_try_def Let_def
        broadcastCriticalStockAlert_def broadcastLowStockAlert_def io_emit_def)

lemma threshold_exact:
  "((of_int q :: rat) < of_int m * (2 / 10)) = (5 * q < m)"
proof -
  have "((of_int q :: rat) < of_int m * (2 / 10)) = ((of_int (5 * q) :: rat) < of_int m)"
    by (simp add: field_simps)
  then show ?thesis by (simp only: of_int_less_iff)
qed

lemma floor_fifth: "\<lfloor>(of_int m :: rat) * (2 / 10)\<rfloor> = m div 5"
proof -
  have "(of_int m :: rat) * (2 / 10) = of_int m / of_int 5" by simp
  then show ?thesis by (simp only: floor_divide_of_int_eq)
qed

lemma emitted_append_same: "(srv\<lparr> emitted := emitted srv @ xs \<rparr> = srv) = (xs = [])"
  by (cases srv) simp

lemma create_notifications:
  "notifications (snd (notificationRepository_create d now s)) =
     (if dbAvailable s
      then notifications s @
        [\<lparr> n_id = notificationsAutoInc s, n_userId = in_userId d, n_type = in_type d,
           n_title = in_title d, n_message = in_message d, n_productId = in_productId d,
           n_supplierId = in_supplierId d,
           n_read = (case in_read d of None \<Rightarrow> False | Some r \<Rightarrow> r),
           n_createdAt = now \<rparr>]
      else notifications s)"
  "notificationsAutoInc (snd (notificationRepository_create d now s)) =
     (if dbAvailable s then notificationsAutoInc s + 1 else notificationsAutoInc s)"
  by (auto simp: notificationRepository_create_def db_insert_notifications_def Let_def
        split: list.splits)

lemma markAsRead_notifications:
  "notifications (snd (markAsRead i s)) =
     map (\<lambda>n. if dbAvailable s \<and> n_id n = i then n\<lparr> n_read := True \<rparr> else n) (notifications s)"
  "notificationsAutoInc (snd (markAsRead i s)) = notificationsAutoInc s"
  by (simp_all add: markAsRead_def notificationRepository_markAsRead_def)

lemma markAllAsRead_notifications:
  "notifications (snd (markAllAsRead u s)) =
     map (\<lambda>n. if dbAvailable s \<and> n_userId n = u \<and> \<not> n_read n then n\<lparr> n_read := True \<rparr> else n)
       (notifications s)"
  "notificationsAutoInc (snd (markAllAsRead u s)) = notificationsAutoInc s"
  by (simp_all add: markAllAsRead_def notificationRepository_markAllAsRead_def)

lemma deleteNotification_notifications:
  "notifications (snd (deleteNotification i s)) =
     filter (\<lambda>n. \<not> dbAvailable s \<or> n_id n \<noteq> i) (notifications s)"
  "notificationsAutoInc (snd (deleteNotification i s)) = notificationsAutoInc s"
proof -
  have "filter (\<lambda>n. n_id n \<noteq> i) xs = xs" if "take 1 (filter (\<lambda>n. n_id n = i) xs) = []"
    for xs :: "Notification list"
  proof -
    from that have "filter (\<lambda>n. n_id n = i) xs = []" by (cases "filter (\<lambda>n. n_id n = i) xs") simp_all
    then show ?thesis by (induction xs) (auto split: if_splits)
  qed
  then show "notifications (snd (deleteNotification i s)) =
     filter (\<lambda>n. \<not> dbAvailable s \<or> n_id n \<noteq> i) (notifications s)"
    by (simp add: deleteNotification_def notificationRepository_delete_def split: list.splits)
  show "notificationsAutoInc (snd (deleteNotification i s)) = notificationsAutoInc s"
    by (simp add: deleteNotification_def notificationRepository_delete_def split: list.splits)
qed

lemma pk_append:
  assumes "notificationsPrimaryKey s"
    and "notifications s' = notifications s @ [n]" and "n_id n = notificationsAutoInc s"
    and "notificationsAutoInc s' = notificationsAutoInc s + 1"
  shows "notificationsPrimaryKey s'"
  using assms by (auto simp: notificationsPrimaryKey_def list_all_iff)

lemma pk_map:
  assumes "notificationsPrimaryKey s"
    and "notifications s' = map (\<lambda>n. if P n then n\<lparr> n_read := True \<rparr> else n) (notifications s)"
    and "notificationsAutoInc s' = notificationsAutoInc s"
  shows "notificationsPrimaryKey s'"
proof -
  have "n_id \<circ> (\<lambda>n. if P n then n\<lparr> n_read := True \<rparr> else n) = n_id"
    by (rule ext) simp
  with assms show ?thesis by (auto simp: notificationsPrimaryKey_def list_all_iff)
qed

lemma pk_filter:
  assumes "notificationsPrimaryKey s"
    and "notifications s' = filter P (notifications s)"
    and "notificationsAutoInc s' = notificationsAutoInc s"
  shows "notificationsPrimaryKey s'"
  using assms by (auto simp: notificationsPrimaryKey_def list_all_iff distinct_map_filter)

lemma readStep_I:
  assumes "notificationsAutoInc s \<le> notificationsAutoInc s'"
    and "\<And>n'. n' \<in> set (notifications s') \<Longrightarrow>
           (\<exists>n\<in>set (notifications s). n' = n \<or> n' = n\<lparr> n_read := True \<rparr>)
           \<or> notificationsAutoInc s \<le> n_id n'"
  shows "readStep s s'"
  unfolding readStep_def
proof (intro conjI ballI)
  show "notificationsAutoInc s \<le> notificationsAutoInc s'" by fact
next
  fix n' assume "n' \<in> set (notifications s')"
  from assms(2)[OF this]
  show "(\<exists>n\<in>set (notifications s). n' = n\<lparr> n_read := n_read n \<or> n_read n' \<rparr>)
       \<or> notificationsAutoInc s \<le> n_id n'"
  proof
    assume "\<exists>n\<in>set (notifications s). n' = n \<or> n' = n\<lparr> n_read := True \<rparr>"
    then obtain n where n: "n \<in> set (notifications s)" "n' = n \<or> n' = n\<lparr> n_read := True \<rparr>"
      by blast
    from n(2) have "n' = n\<lparr> n_read := n_read n \<or> n_read n' \<rparr>" by auto
    with n(1) show ?thesis by blast
  next
    assume "notificationsAutoInc s \<le> n_id n'"
    then show ?thesis ..
  qed
qed

lemma step_append:
  assumes "notifications s' = notifications s @ [n]" and "n_id n = notificationsAutoInc s"
    and "notificationsAutoInc s' = notificationsAutoInc s + 1"
  shows "readStep s s'"
  using assms by (intro readStep_I) auto

lemma step_map:
  assumes "notifications s' = map (\<lambda>n. if P n then n\<lparr> n_read := True \<rparr> else n) (notifications s)"
    and "notificationsAutoInc s' = notificationsAutoInc s"
  shows "readStep s s'"
  using assms by (intro readStep_I) auto

lemma step_filter:
  assumes "notifications s' = filter P (notifications s)"
    and "notificationsAutoInc s' = notificationsAutoInc s"
  shows "readStep s s'"
  using assms by (intro readStep_I) auto

lemma step_same:
  assumes "notifications s' = notifications s"
    and "notificationsAutoInc s' = notificationsAutoInc s"
  shows "readStep s s'"
  using assms by (intro readStep_I) auto

lemma pk_same:
  assumes "notificationsPrimaryKey s" and "notifications s' = notifications s"
    and "notificationsAutoInc s' = notificationsAutoInc s"
  shows "notificationsPrimaryKey s'"
  using assms by (simp add: notificationsPrimaryKey_def)

lemma create_step:
  assumes "notificationsPrimaryKey s"
  shows "notificationsPrimaryKey (snd (notificationRepository_create d now s))
       \<and> readStep s (snd (notificationRepository_create d now s))"
proof (cases "dbAvailable s")
  case True
  then show ?thesis
    using pk_append[OF assms, of "snd (notificationRepository_create d now s)"]
      step_append[of "snd (notificationRepository_create d now s)" s]
    by (simp add: create_notifications)
next
  case False
  then show ?thesis
    using pk_same[OF assms, of "snd (notificationRepository_create d now s)"]
      step_same[of "snd (notificationRepository_create d now s)" s]
    by (simp add: create_notifications)
qed

lemma call_step:
  assumes "notificationsPrimaryKey s"
  shows "notificationsPrimaryKey (notificationService_call c s)
       \<and> readStep s (notificationService_call c s)"
proof (cases c)
  case (MarkAsRead i)
  show ?thesis unfolding MarkAsRead notificationService_call.simps
    using pk_map[OF assms markAsRead_notifications] step_map[OF markAsRead_notifications] by blast
next
  case (MarkAllAsRead u)
  show ?thesis unfolding MarkAllAsRead notificationService_call.simps
    using pk_map[OF assms markAllAsRead_notifications] step_map[OF markAllAsRead_notifications]
    by blast
next
  case (DeleteNotification i)
  show ?thesis unfolding DeleteNotification notificationService_call.simps
    using pk_filter[OF assms deleteNotification_notifications]
      step_filter[OF deleteNotification_notifications] by blast
qed (simp_all add: create_step[OF assms] createLowStockNotification_def
       createCriticalStockNotification_def createSupplierAlertNotification_def
       createSystemNotification_def)

lemma readStep_trans:
  assumes "readStep s s'" and "readStep s' s''"
  shows "readStep s s''"
  unfolding readStep_def
proof (intro conjI ballI)
  show "notificationsAutoInc s \<le> notificationsAutoInc s''"
    using assms by (simp add: readStep_def)
next
  fix n'' assume "n'' \<in> set (notifications s'')"
  with assms(2) consider
      n' where "n' \<in> set (notifications s')" "n'' = n'\<lparr> n_read := n_read n' \<or> n_read n'' \<rparr>"
    | "notificationsAutoInc s' \<le> n_id n''"
    unfolding readStep_def by blast
  then show "(\<exists>n\<in>set (notifications s). n'' = n\<lparr> n_read := n_read n \<or> n_read n'' \<rparr>)
       \<or> notificationsAutoInc s \<le> n_id n''"
  proof cases
    case 1
    from assms(1) 1(1) consider
        n where "n \<in> set (notifications s)" "n' = n\<lparr> n_read := n_read n \<or> n_read n' \<rparr>"
      | "notificationsAutoInc s \<le> n_id n'"
      unfolding readStep_def by blast
    then show ?thesis
    proof cases
      case 1
      note a = this
      from \<open>n'' = n'\<lparr> n_read := n_read n' \<or> n_read n'' \<rparr>\<close> a(2)
      have "n'' = n\<lparr> n_read := n_read n \<or> n_read n'' \<rparr>"
        by (cases n; cases n'; cases n'') auto
      with a(1) show ?thesis by blast
    next
      case 2
      moreover have "n_id n'' = n_id n'"
        using \<open>n'' = n'\<lparr> n_read := n_read n' \<or> n_read n'' \<rparr>\<close> by (cases n'; cases n'') auto
      ultimately show ?thesis by simp
    qed
  next
    case 2
    with assms(1) show ?thesis by (auto simp: readStep_def)
  qed
qed

lemma readStep_refl: "readStep s s"
  by (rule step_same) simp_all

lemma calls_step:
  "notificationsPrimaryKey s \<Longrightarrow>
     notificationsPrimaryKey (notificationService_calls cs s)
     \<and> readStep s (notificationService_calls cs s)"
proof (induction cs arbitrary: s)
  case Nil
  then show ?case by (simp add: readStep_refl)
next
  case (Cons c cs)
  from call_step[OF Cons.prems, of c]
  have pk: "notificationsPrimaryKey (notificationService_call c s)"
    and st: "readStep s (notificationService_call c s)" by simp_all
  from Cons.IH[OF pk] st show ?case
    by (auto intro: readStep_trans)
qed

lemma call_fresh:
  assumes "n' \<in> set (notifications (notificationService_call c s))"
  shows "n' \<in> set (notifications s) \<or> (\<exists>n\<in>set (notifications s). n' = n\<lparr> n_read := True \<rparr>)
       \<or> \<not> n_read n'"
proof (cases c)
  case (MarkAsRead i)
  with assms show ?thesis by (auto simp: markAsRead_notifications split: if_splits)
next
  case (MarkAllAsRead u)
  with assms show ?thesis by (auto simp: markAllAsRead_notifications split: if_splits)
next
  case (DeleteNotification i)
  with assms show ?thesis by (auto simp: deleteNotification_notifications)
next
  case (CreateLowStockNotification u p nm q m now)
  with assms show ?thesis
    by (auto simp: createLowStockNotification_def create_notifications split: if_splits)
next
  case (CreateCriticalStockNotification u p nm now)
  with assms show ?thesis
    by (auto simp: createCriticalStockNotification_def create_notifications split: if_splits)
next
  case (CreateSupplierAlertNotification u sp nm msg now)
  with assms show ?thesis
    by (auto simp: createSupplierAlertNotification_def create_notifications split: if_splits)
next
  case (CreateSystemNotification u t msg now)
  with assms show ?thesis
    by (auto simp: createSystemNotification_def create_notifications split: if_splits)
qed

section \<open>The movement engine\<close>

text \<open>
  Claim C1. Every successful call of \<open>recordMovement\<close> on an existing product with prior
  quantity \<open>Q\<close> leaves the product with quantity \<open>Q + quantity\<close> for a purchase or a
  return, \<open>Q - quantity\<close> for a sale or a damage, and exactly \<open>quantity\<close> for an
  adjustment.
\<close>

theorem recordMovement_new_quantity:
  assumes "productRepository_findById (productId d) s = Inr (Some product)"
    and "recordMovement d s = (Inr movement, s')"
  shows "\<exists>product'. productRepository_findById (productId d) s' = Inr (Some product')
           \<and> p_quantity product' =
               (case movementType d of
                  Purchase \<Rightarrow> p_quantity product + quantity d
                | Return \<Rightarrow> p_quantity product + quantity d
                | Sale \<Rightarrow> p_quantity product - quantity d
                | Damage \<Rightarrow> p_quantity product - quantity d
                | Adjustment \<Rightarrow> quantity d)"
proof -
  from recordMovement_success[OF assms(2)] assms(1)
  have s': "s' = db_update_products (productId d) (quantityOnly (newQuantity product d))
                    (db_insert_stockMovements (insertData product d) s)"
    by auto
  have "productRepository_findById (productId d) (db_insert_stockMovements (insertData product d) s)
          = Inr (Some product)"
    using assms(1) by (simp add: findById_after_insert)
  then have "productRepository_findById (productId d) s'
          = Inr (Some (setPartial (quantityOnly (newQuantity product d)) product))"
    unfolding s' by (simp add: findById_after_update)
  moreover have "p_quantity (setPartial (quantityOnly (newQuantity product d)) product)
          = newQuantity product d"
    by (simp add: setPartial_def quantityOnly_def)
  ultimately show ?thesis
    by (auto simp: newQuantity_def split: MovementType.splits)
qed

theorem recordMovement_new_quantity_witness:
  "productRepository_findById 1 shop = Inr (Some widget)
   \<and> fst (recordMovement \<lparr> productId = 1, movementType = Sale, quantity = 4, reason = None \<rparr> shop)
       = Inr \<lparr> m_id = 1, m_productId = 1, m_movementType = Sale, m_quantity = 4, m_reason = None \<rparr>
   \<and> (\<exists>product'. productRepository_findById 1
          (snd (recordMovement \<lparr> productId = 1, movementType = Sale, quantity = 4, reason = None \<rparr> shop))
            = Inr (Some product') \<and> p_quantity product' = 6)"
proof -
  let ?d = "\<lparr> productId = 1, movementType = Sale, quantity = 4, reason = None \<rparr>"
  have h1: "productRepository_findById (productId ?d) shop = Inr (Some widget)"
    by (simp add: eval_defs)
  have h2: "fst (recordMovement ?d shop)
       = Inr \<lparr> m_id = 1, m_productId = 1, m_movementType = Sale, m_quantity = 4, m_reason = None \<rparr>"
    by (simp add: eval_defs)
  then have h3: "recordMovement ?d shop =
       (Inr \<lparr> m_id = 1, m_productId = 1, m_movementType = Sale, m_quantity = 4, m_reason = None \<rparr>,
        snd (recordMovement ?d shop))"
    by (metis prod.collapse)
  from recordMovement_new_quantity[OF h1 h3] h1 h2 show ?thesis
    by (simp add: widget_def)
qed

text \<open>
  Claim C2. When the product exists, the quantity is positive and the computed new quantity
  is negative, \<open>recordMovement\<close> fails with \<open>InsufficientStock\<close> carrying the current
  and the requested quantity, and the whole state (product quantities and ledger included)
  is the one before the call.
\<close>

theorem recordMovement_insufficient_stock:
  assumes "productRepository_findById (productId d) s = Inr (Some product)"
    and "0 < quantity d"
    and "newQuantity product d < 0"
  shows "recordMovement d s = (Inl (InsufficientStock (p_quantity product) (quantity d)), s)"
  using assms by (cases "movementType d") (simp_all add: recordMovement_def validTypes_def)

theorem recordMovement_insufficient_stock_witness:
  "productRepository_findById 1 shop = Inr (Some widget)
   \<and> newQuantity widget \<lparr> productId = 1, movementType = Sale, quantity = 20, reason = None \<rparr> < 0
   \<and> recordMovement \<lparr> productId = 1, movementType = Sale, quantity = 20, reason = None \<rparr> shop
       = (Inl (InsufficientStock 10 20), shop)"
proof -
  let ?d = "\<lparr> productId = 1, movementType = Sale, quantity = 20, reason = None \<rparr>"
  have h1: "productRepository_findById (productId ?d) shop = Inr (Some widget)"
    by (simp add: eval_defs)
  have h2: "0 < quantity ?d" by simp
  have h3: "newQuantity widget ?d < 0" by (simp add: newQuantity_def widget_def)
  from recordMovement_insufficient_stock[OF h1 h2 h3] h1 h3 show ?thesis
    by (simp add: widget_def)
qed

text \<open>
  Claim C3 (as stated): if either the ledger insert or the quantity update fails, the other
  is not committed. It fails on the code: \<open>recordMovement\<close> opens no transaction and rolls
  nothing back. For the product with id 5 and an empty ledger, \<open>create\<close> inserts the row
  and then throws, so the ledger holds a row for a movement whose quantity update never ran.
\<close>

theorem recordMovement_ledger_row_without_update:
  "fst (recordMovement \<lparr> productId = 5, movementType = Purchase, quantity = 3, reason = None \<rparr> shop)
     = Inl FailedToCreateStockMovement
   \<and> stockMovements (snd (recordMovement
        \<lparr> productId = 5, movementType = Purchase, quantity = 3, reason = None \<rparr> shop))
     = [\<lparr> m_id = 1, m_productId = 5, m_movementType = Purchase, m_quantity = 3, m_reason = None \<rparr>]
   \<and> stockMovements shop = []
   \<and> products (snd (recordMovement
        \<lparr> productId = 5, movementType = Purchase, quantity = 3, reason = None \<rparr> shop))
     = products shop"
  by (simp add: eval_defs)

text \<open>
  Claim C3 (amended). \<open>recordMovement\<close> inserts the ledger row first and updates the
  quantity second, without a transaction. The product table changes only when the ledger has
  gained a row; a call that returns a movement has committed both (one new ledger row for this
  movement and the new quantity on the product); a call rejected with \<open>ProductNotFound\<close>,
  \<open>InvalidQuantity\<close> or \<open>InsufficientStock\<close> has committed neither.
\<close>

theorem recordMovement_commit_order:
  assumes "recordMovement d s = (r, s')"
  shows "(products s' \<noteq> products s \<longrightarrow> (\<exists>row. stockMovements s' = stockMovements s @ [row]))
       \<and> (\<forall>movement. r = Inr movement \<longrightarrow>
            (\<exists>product. productRepository_findById (productId d) s = Inr (Some product)
               \<and> stockMovements s' = stockMovements s @ [insertedRow (insertData product d) s]
               \<and> products s' =
                   map (\<lambda>p. if p_id p = productId d
                             then p\<lparr> p_quantity := newQuantity product d \<rparr> else p)
                     (products s)))
       \<and> (r = Inl (ProductNotFound (productId d)) \<or> r = Inl InvalidQuantity
            \<or> (\<exists>c q. r = Inl (InsufficientStock c q)) \<longrightarrow> s' = s)"
proof -
  have sp: "setPartial (quantityOnly q) p = p\<lparr> p_quantity := q \<rparr>" for q p
    by (simp add: setPartial_def quantityOnly_def)
  from recordMovement_cases[OF assms] show ?thesis
    by (auto simp: db_update_products_def db_insert_stockMovements_def sp)
qed

theorem recordMovement_commit_order_witness:
  "stockMovements (snd (recordMovement
       \<lparr> productId = 1, movementType = Sale, quantity = 4, reason = None \<rparr> shop))
     = [\<lparr> m_id = 1, m_productId = 1, m_movementType = Sale, m_quantity = 4, m_reason = None \<rparr>]
   \<and> map p_quantity (products (snd (recordMovement
       \<lparr> productId = 1, movementType = Sale, quantity = 4, reason = None \<rparr> shop))) = [6, 10]"
proof -
  let ?d = "\<lparr> productId = 1, movementType = Sale, quantity = 4, reason = None \<rparr>"
  let ?m = "\<lparr> m_id = 1, m_productId = 1, m_movementType = Sale, m_quantity = 4, m_reason = None \<rparr>"
  have "fst (recordMovement ?d shop) = Inr ?m"
    by (simp add: eval_defs)
  then have h: "recordMovement ?d shop = (Inr ?m, snd (recordMovement ?d shop))"
    by (metis prod.collapse)
  have p: "productRepository_findById 1 shop = Inr (Some widget)"
    by (simp add: eval_defs)
  from recordMovement_commit_order[OF h] p show ?thesis
    by (auto simp: insertedRow_def insertData_def newQuantity_def shop_def widget_def gadget_def)
qed

text \<open>
  Claim C4: a successful \<open>recordMovement\<close> returns the ledger record it created. The code
  evaluated where the ledger already holds a row whose id equals the product's id: the call
  for product 1 (a sale of 4) appends row 2 and returns row 1, a purchase for product 5.
\<close>

theorem recordMovement_returns_other_row:
  "fst (recordMovement \<lparr> productId = 1, movementType = Sale, quantity = 4, reason = None \<rparr> backlog)
     = Inr \<lparr> m_id = 1, m_productId = 5, m_movementType = Purchase, m_quantity = 10,
             m_reason = Some ''Initial stock purchase'' \<rparr>
   \<and> stockMovements (snd (recordMovement
        \<lparr> productId = 1, movementType = Sale, quantity = 4, reason = None \<rparr> backlog))
     = [\<lparr> m_id = 1, m_productId = 5, m_movementType = Purchase, m_quantity = 10,
          m_reason = Some ''Initial stock purchase'' \<rparr>,
        \<lparr> m_id = 2, m_productId = 1, m_movementType = Sale, m_quantity = 4, m_reason = None \<rparr>]"
  by (simp add: eval_defs)

section \<open>The alert evaluator\<close>

text \<open>
  In the theorems below the socket server is attached (\<open>io s = Some srv\<close>) and its \<open>emit\<close>
  does not raise, so that each alert shows as the event appended to \<open>emitted\<close>: a Critical
  alert is the event \<open>notification:stock_critical\<close>, a Warning the event
  \<open>notification:stock_low\<close>.
\<close>

text \<open>
  Claim C5 (as stated): a product with \<open>minLevel = 0\<close> alerts only when \<open>Q\<close> is exactly 0.
  It fails for a negative quantity, which \<open>importProducts\<close> can store
  (\<open>quantity: parseInt(product.quantity)\<close> goes to \<open>productRepository.create\<close> unchecked):
  with quantity \<open>-1\<close> and threshold 0 the test \<open>quantity < minLevel * 0.2\<close> holds and the
  Critical event is emitted.
\<close>

theorem checkAndAlertStockLevel_negative_quantity:
  "productRepository_findById 1 (stocked (- 1) 0)
       = Inr (Some (widget\<lparr> p_quantity := - 1, p_minStockLevel := 0 \<rparr>))
   \<and> p_minStockLevel (widget\<lparr> p_quantity := - 1, p_minStockLevel := 0 \<rparr>) = 0
   \<and> p_quantity (widget\<lparr> p_quantity := - 1, p_minStockLevel := 0 \<rparr>) \<noteq> 0
   \<and> io (stocked (- 1) 0) = Some \<lparr> emitThrows = False, emitted = [] \<rparr>
   \<and> io (snd (checkAndAlertStockLevel 1 (stocked (- 1) 0))) =
       Some \<lparr> emitThrows = False,
              emitted = [(''notification:stock_critical'', criticalStockPayload 1 ''Widget'')] \<rparr>"
  by (simp add: stocked_def eval_defs checkAndAlertStockLevel_def checkAndAlertStockLevel_try_def
        broadcastCriticalStockAlert_def io_emit_def criticalStockPayload_def)

text \<open>
  Claim C5 (amended). For an existing product with quantity \<open>Q\<close> and threshold \<open>minLevel\<close>
  the evaluator takes the first match of: \<open>Q = 0\<close>, Critical; \<open>Q < minLevel * 0.2\<close>,
  Critical; \<open>Q < minLevel\<close>, Warning; otherwise nothing is emitted. A product with
  \<open>minLevel = 0\<close> alerts exactly when \<open>Q \<le> 0\<close>: at \<open>Q = 0\<close>, and at a negative \<open>Q\<close> by the
  second test; never at a positive \<open>Q\<close>.
\<close>

theorem checkAndAlertStockLevel_first_match:
  assumes "productRepository_findById pid s = Inr (Some product)"
    and "io s = Some srv" and "\<not> emitThrows srv"
  shows "io (snd (checkAndAlertStockLevel pid s)) =
     Some (srv\<lparr> emitted := emitted srv @
       (if p_quantity product = 0
        then [(''notification:stock_critical'', criticalStockPayload pid (p_name product))]
        else if (of_int (p_quantity product) :: rat) < of_int (p_minStockLevel product) * (2 / 10)
        then [(''notification:stock_critical'', criticalStockPayload pid (p_name product))]
        else if p_quantity product < p_minStockLevel product
        then [(''notification:stock_low'',
               lowStockPayload pid (p_name product) (p_quantity product) (p_minStockLevel product))]
        else []) \<rparr>)
   \<and> (p_minStockLevel product = 0 \<longrightarrow>
        (io (snd (checkAndAlertStockLevel pid s)) \<noteq> io s) = (p_quantity product \<le> 0))"
  using assms(2) unfolding checkAndAlert_emitted[OF assms]
  by (auto simp: emitted_append_same)

theorem checkAndAlertStockLevel_first_match_witness:
  "productRepository_findById 5 (stocked 0 20) = Inr (Some gadget)
   \<and> p_minStockLevel gadget = 0 \<and> p_quantity gadget = 10
   \<and> io (snd (checkAndAlertStockLevel 5 (stocked 0 20))) = io (stocked 0 20)
   \<and> io (snd (checkAndAlertStockLevel 1 (stocked 0 20))) =
       Some \<lparr> emitThrows = False,
              emitted = [(''notification:stock_critical'', criticalStockPayload 1 ''Widget'')] \<rparr>"
proof -
  let ?srv = "\<lparr> emitThrows = False, emitted = [] \<rparr>"
  have g: "productRepository_findById 5 (stocked 0 20) = Inr (Some gadget)"
    by (simp add: stocked_def eval_defs)
  have w: "productRepository_findById 1 (stocked 0 20)
             = Inr (Some (widget\<lparr> p_quantity := 0, p_minStockLevel := 20 \<rparr>))"
    by (simp add: stocked_def eval_defs)
  have i: "io (stocked 0 20) = Some ?srv" by (simp add: stocked_def shop_def)
  have t: "\<not> emitThrows ?srv" by simp
  from checkAndAlertStockLevel_first_match[OF g i t] checkAndAlertStockLevel_first_match[OF w i t] g i
  show ?thesis by (simp add: gadget_def widget_def)
qed

text \<open>
  Claim C6 (as stated): for every \<open>minLevel > 0\<close> the quantity \<open>minLevel - 1\<close> gives a
  Warning. It fails at \<open>minLevel = 1\<close>: that quantity is 0, and the out-of-stock test comes
  first, so the Critical event is emitted.
\<close>

theorem checkAndAlertStockLevel_minLevel_one:
  "0 < p_minStockLevel (widget\<lparr> p_quantity := 0, p_minStockLevel := 1 \<rparr>)
   \<and> p_quantity (widget\<lparr> p_quantity := 0, p_minStockLevel := 1 \<rparr>)
       = p_minStockLevel (widget\<lparr> p_quantity := 0, p_minStockLevel := 1 \<rparr>) - 1
   \<and> productRepository_findById 1 (stocked 0 1)
       = Inr (Some (widget\<lparr> p_quantity := 0, p_minStockLevel := 1 \<rparr>))
   \<and> io (snd (checkAndAlertStockLevel 1 (stocked 0 1))) =
       Some \<lparr> emitThrows = False,
              emitted = [(''notification:stock_critical'', criticalStockPayload 1 ''Widget'')] \<rparr>
   \<and> io (snd (checkAndAlertStockLevel 1 (stocked 0 1))) \<noteq>
       Some \<lparr> emitThrows = False,
              emitted = [(''notification:stock_low'', lowStockPayload 1 ''Widget'' 0 1)] \<rparr>"
  by (simp add: stocked_def eval_defs checkAndAlertStockLevel_def checkAndAlertStockLevel_try_def
        broadcastCriticalStockAlert_def io_emit_def criticalStockPayload_def lowStockPayload_def)

text \<open>
  Claim C6 (amended). For every \<open>minLevel > 0\<close>, with \<open>minLevel * 0.2\<close> taken exactly:
  quantity 0 gives Critical; quantity \<open>minLevel - 1\<close> gives Warning when \<open>minLevel \<ge> 2\<close>;
  quantity \<open>floor (minLevel * 0.2) - 1\<close> gives Critical; quantity \<open>minLevel\<close> gives no alert.
\<close>

theorem checkAndAlertStockLevel_boundaries:
  assumes "productRepository_findById pid s = Inr (Some product)"
    and "io s = Some srv" and "\<not> emitThrows srv"
    and "0 < p_minStockLevel product"
  shows "(p_quantity product = 0 \<longrightarrow>
            io (snd (checkAndAlertStockLevel pid s)) =
              Some (srv\<lparr> emitted := emitted srv @
                [(''notification:stock_critical'', criticalStockPayload pid (p_name product))] \<rparr>))
       \<and> (p_quantity product = p_minStockLevel product - 1 \<and> 2 \<le> p_minStockLevel product \<longrightarrow>
            io (snd (checkAndAlertStockLevel pid s)) =
              Some (srv\<lparr> emitted := emitted srv @
                [(''notification:stock_low'',
                  lowStockPayload pid (p_name product) (p_quantity product)
                    (p_minStockLevel product))] \<rparr>))
       \<and> (p_quantity product = \<lfloor>(of_int (p_minStockLevel product) :: rat) * (2 / 10)\<rfloor> - 1 \<longrightarrow>
            io (snd (checkAndAlertStockLevel pid s)) =
              Some (srv\<lparr> emitted := emitted srv @
                [(''notification:stock_critical'', criticalStockPayload pid (p_name product))] \<rparr>))
       \<and> (p_quantity product = p_minStockLevel product \<longrightarrow>
            io (snd (checkAndAlertStockLevel pid s)) = Some srv)"
  using assms(4) unfolding checkAndAlert_emitted[OF assms(1-3)] threshold_exact floor_fifth
  by (auto simp: emitted_append_same)

theorem checkAndAlertStockLevel_boundaries_witness:
  "0 < p_minStockLevel (widget\<lparr> p_quantity := 19, p_minStockLevel := 20 \<rparr>)
   \<and> io (snd (checkAndAlertStockLevel 1 (stocked 19 20))) =
       Some \<lparr> emitThrows = False,
              emitted = [(''notification:stock_low'', lowStockPayload 1 ''Widget'' 19 20)] \<rparr>
   \<and> io (snd (checkAndAlertStockLevel 1 (stocked 3 20))) =
       Some \<lparr> emitThrows = False,
              emitted = [(''notification:stock_critical'', criticalStockPayload 1 ''Widget'')] \<rparr>
   \<and> io (snd (checkAndAlertStockLevel 1 (stocked 20 20))) =
       Some \<lparr> emitThrows = False, emitted = [] \<rparr>"
proof -
  let ?srv = "\<lparr> emitThrows = False, emitted = [] \<rparr>"
  have w: "productRepository_findById 1 (stocked q 20)
             = Inr (Some (widget\<lparr> p_quantity := q, p_minStockLevel := 20 \<rparr>))" for q
    by (simp add: stocked_def eval_defs)
  have i: "io (stocked q 20) = Some ?srv" for q by (simp add: stocked_def shop_def)
  have t: "\<not> emitThrows ?srv" by simp
  have m: "0 < p_minStockLevel (widget\<lparr> p_quantity := q, p_minStockLevel := 20 \<rparr>)" for q
    by simp
  have f: "\<lfloor>(20 :: rat) * (2 / 10)\<rfloor> = 4" by simp
  from checkAndAlertStockLevel_boundaries[OF w i t m, of 19]
       checkAndAlertStockLevel_boundaries[OF w i t m, of 3]
       checkAndAlertStockLevel_boundaries[OF w i t m, of 20] f
  show ?thesis by (simp add: widget_def)
qed

text \<open>
  Claim C7 (as stated): the alert for a critically low product (\<open>0 < Q < minLevel * 0.2\<close>)
  carries a message distinct from the out-of-stock one. It fails on the code: both branches
  call \<open>broadcastCriticalStockAlert(productId, product.name)\<close>. With quantity 3 and with
  quantity 0 (threshold 20) the same event with the same title and message goes out.
\<close>

theorem critical_alerts_coincide:
  "productRepository_findById 1 (stocked 3 20)
       = Inr (Some (widget\<lparr> p_quantity := 3, p_minStockLevel := 20 \<rparr>))
   \<and> (0::int) < 3 \<and> (of_int 3 :: rat) < of_int 20 * (2 / 10)
   \<and> productRepository_findById 1 (stocked 0 20)
       = Inr (Some (widget\<lparr> p_quantity := 0, p_minStockLevel := 20 \<rparr>))
   \<and> io (snd (checkAndAlertStockLevel 1 (stocked 3 20))) =
       Some \<lparr> emitThrows = False,
              emitted = [(''notification:stock_critical'',
                AlertPayload ''stock_critical'' ''CRITICAL: Widget Out of Stock!''
                  (''Product '' @ dq @ ''Widget'' @ dq @ '' is out of stock or critically low!'')
                  1 (Some ''critical''))] \<rparr>
   \<and> io (snd (checkAndAlertStockLevel 1 (stocked 0 20))) =
       io (snd (checkAndAlertStockLevel 1 (stocked 3 20)))"
  by (simp add: stocked_def eval_defs checkAndAlertStockLevel_def checkAndAlertStockLevel_try_def
        broadcastCriticalStockAlert_def io_emit_def criticalStockPayload_def)

text \<open>
  Claim C7 (amended). A product that is critically low (\<open>0 < Q < minLevel * 0.2\<close>) gets the
  same alert as the same product out of stock: the event \<open>notification:stock_critical\<close>
  whose title and message (\<open>... is out of stock or critically low!\<close>) depend on the product's
  id and name only.
\<close>

theorem critically_low_same_alert:
  assumes "productRepository_findById pid s1 = Inr (Some p1)"
    and "productRepository_findById pid s2 = Inr (Some p2)"
    and "p_name p1 = p_name p2"
    and "0 < p_quantity p1"
    and "(of_int (p_quantity p1) :: rat) < of_int (p_minStockLevel p1) * (2 / 10)"
    and "p_quantity p2 = 0"
    and "io s1 = Some srv" and "io s2 = Some srv" and "\<not> emitThrows srv"
  shows "io (snd (checkAndAlertStockLevel pid s1)) = io (snd (checkAndAlertStockLevel pid s2))
       \<and> io (snd (checkAndAlertStockLevel pid s1)) =
           Some (srv\<lparr> emitted := emitted srv @
             [(''notification:stock_critical'',
               AlertPayload ''stock_critical'' (''CRITICAL: '' @ p_name p1 @ '' Out of Stock!'')
                 (''Product '' @ dq @ p_name p1 @ dq @ '' is out of stock or critically low!'')
                 pid (Some ''critical''))] \<rparr>)"
  using assms(3-6)
  unfolding checkAndAlert_emitted[OF assms(1) assms(7) assms(9)]
    checkAndAlert_emitted[OF assms(2) assms(8) assms(9)]
  by (simp add: criticalStockPayload_def)

theorem critically_low_same_alert_witness:
  "io (snd (checkAndAlertStockLevel 1 (stocked 3 20))) =
     io (snd (checkAndAlertStockLevel 1 (stocked 0 20)))
   \<and> io (snd (checkAndAlertStockLevel 1 (stocked 3 20))) =
       Some \<lparr> emitThrows = False,
              emitted = [(''notification:stock_critical'',
                AlertPayload ''stock_critical'' ''CRITICAL: Widget Out of Stock!''
                  (''Product '' @ dq @ ''Widget'' @ dq @ '' is out of stock or critically low!'')
                  1 (Some ''critical''))] \<rparr>"
proof -
  let ?srv = "\<lparr> emitThrows = False, emitted = [] \<rparr>"
  have w: "productRepository_findById 1 (stocked q 20)
             = Inr (Some (widget\<lparr> p_quantity := q, p_minStockLevel := 20 \<rparr>))" for q
    by (simp add: stocked_def eval_defs)
  have i: "io (stocked q 20) = Some ?srv" for q by (simp add: stocked_def shop_def)
  from critically_low_same_alert[OF w[of 3] w[of 0] _ _ _ _ i[of 3] i[of 0]]
  show ?thesis by (auto simp: widget_def)
qed

text \<open>
  Claim C8. \<open>checkAndAlertStockLevel\<close> returns normally on every input. When the product
  lookup fails or finds no product, or when the socket server's \<open>emit\<close> raises, no alert is
  emitted and the database is as before (the error is written to the console only).
\<close>

theorem checkAndAlertStockLevel_never_raises:
  "fst (checkAndAlertStockLevel pid s) = Inr ()
   \<and> ((\<exists>e. productRepository_findById pid s = Inl e)
        \<or> productRepository_findById pid s = Inr None
        \<or> (\<exists>srv. io s = Some srv \<and> emitThrows srv) \<longrightarrow>
       io (snd (checkAndAlertStockLevel pid s)) = io s
       \<and> dbAvailable (snd (checkAndAlertStockLevel pid s)) = dbAvailable s
       \<and> products (snd (checkAndAlertStockLevel pid s)) = products s
       \<and> stockMovements (snd (checkAndAlertStockLevel pid s)) = stockMovements s
       \<and> notifications (snd (checkAndAlertStockLevel pid s)) = notifications s)"
  by (auto simp: checkAndAlertStockLevel_def checkAndAlertStockLevel_try_def Let_def
        broadcastCriticalStockAlert_def broadcastLowStockAlert_def io_emit_def
        split: sum.splits option.splits prod.splits if_splits)

theorem checkAndAlertStockLevel_never_raises_witness:
  "productRepository_findById 1 (shop\<lparr> dbAvailable := False \<rparr>) = Inl DatabaseConnectionFailed
   \<and> checkAndAlertStockLevel 1 (shop\<lparr> dbAvailable := False \<rparr>) =
       (Inr (), shop\<lparr> dbAvailable := False,
          console := [ConsoleError ''[StockAlert] Error checking stock for product 1:''
                        DatabaseConnectionFailed] \<rparr>)
   \<and> io (snd (checkAndAlertStockLevel 1 (shop\<lparr> dbAvailable := False \<rparr>))) = io shop"
proof -
  have h: "productRepository_findById 1 (shop\<lparr> dbAvailable := False \<rparr>) = Inl DatabaseConnectionFailed"
    by (simp add: productRepository_findById_def)
  have n: "numberToString 1 = ''1''" by code_simp
  have cs: "console shop = []" by (simp add: shop_def)
  have c: "checkAndAlertStockLevel 1 (shop\<lparr> dbAvailable := False \<rparr>) =
       (Inr (), shop\<lparr> dbAvailable := False,
          console := [ConsoleError ''[StockAlert] Error checking stock for product 1:''
                        DatabaseConnectionFailed] \<rparr>)"
    by (simp add: checkAndAlertStockLevel_def checkAndAlertStockLevel_try_def h n cs)
  from checkAndAlertStockLevel_never_raises[of 1 "shop\<lparr> dbAvailable := False \<rparr>"] h c
  show ?thesis by simp
qed

text \<open>
  Claim C9. \<open>recordMovementAndAlert\<close> returns normally on every input and leaves the product
  table as it was, the quantity included. The ledger is unchanged or has gained the row with
  the arguments as given; it has gained it whenever the database is available and the product
  exists, whatever the sign of the quantity and the stock at hand.
\<close>

theorem recordMovementAndAlert_leaves_products:
  "fst (recordMovementAndAlert pid mt qty rsn s) = Inr ()
   \<and> products (snd (recordMovementAndAlert pid mt qty rsn s)) = products s
   \<and> (stockMovements (snd (recordMovementAndAlert pid mt qty rsn s)) = stockMovements s
        \<or> stockMovements (snd (recordMovementAndAlert pid mt qty rsn s)) =
            stockMovements s @
              [\<lparr> m_id = stockMovementsAutoInc s, m_productId = pid, m_movementType = mt,
                 m_quantity = qty, m_reason = rsn \<rparr>])
   \<and> (dbAvailable s \<and> find (\<lambda>p. p_id p = pid) (products s) \<noteq> None \<longrightarrow>
        stockMovements (snd (recordMovementAndAlert pid mt qty rsn s)) =
          stockMovements s @
            [\<lparr> m_id = stockMovementsAutoInc s, m_productId = pid, m_movementType = mt,
               m_quantity = qty, m_reason = rsn \<rparr>])"
  using recordMovementAndAlert_try_frame[of pid mt qty rsn s]
  by (auto simp: recordMovementAndAlert_def split: prod.splits sum.splits)

theorem recordMovementAndAlert_leaves_products_witness:
  "dbAvailable shop \<and> find (\<lambda>p. p_id p = 1) (products shop) \<noteq> None
   \<and> products (snd (recordMovementAndAlert 1 Sale 500 None shop)) = products shop
   \<and> stockMovements (snd (recordMovementAndAlert 1 Sale 500 None shop)) =
        [\<lparr> m_id = 1, m_productId = 1, m_movementType = Sale, m_quantity = 500,
           m_reason = None \<rparr>]"
proof -
  have h: "dbAvailable shop \<and> find (\<lambda>p. p_id p = 1) (products shop) \<noteq> None"
    by (simp add: shop_def widget_def)
  with recordMovementAndAlert_leaves_products[of 1 Sale 500 None shop] show ?thesis
    by (simp add: shop_def)
qed

section \<open>The notification store\<close>

text \<open>
  Claim C10. The \<open>read\<close> flag only goes from false to true. From a store whose ids are
  unique and below the auto-increment counter, after any sequence of calls of
  \<open>notificationService\<close> a notification that is still there equals the one before except
  that its flag may have become true (so \<open>markAsRead\<close> and \<open>markAllAsRead\<close> set it to true
  and nothing sets it back); a notification a call creates has \<open>read = false\<close>; and the
  store keeps its primary key.
\<close>

theorem notification_read_monotone:
  assumes "notificationsPrimaryKey s"
  shows "(\<forall>n\<in>set (notifications s). \<forall>n'\<in>set (notifications (notificationService_calls cs s)).
            n_id n' = n_id n \<longrightarrow> n' = n\<lparr> n_read := n_read n \<or> n_read n' \<rparr>)
       \<and> (\<forall>n'\<in>set (notifications (notificationService_call c s)).
            n_id n' \<notin> n_id ` set (notifications s) \<longrightarrow> \<not> n_read n')
       \<and> notificationsPrimaryKey (notificationService_calls cs s)"
proof (intro conjI ballI impI)
  fix n n'
  assume n: "n \<in> set (notifications s)"
    and n': "n' \<in> set (notifications (notificationService_calls cs s))"
    and eq: "n_id n' = n_id n"
  from calls_step[OF assms, of cs] have st: "readStep s (notificationService_calls cs s)" by simp
  from assms n have "n_id n < notificationsAutoInc s"
    by (auto simp: notificationsPrimaryKey_def list_all_iff)
  with st n' eq obtain m where m: "m \<in> set (notifications s)"
      "n' = m\<lparr> n_read := n_read m \<or> n_read n' \<rparr>"
    unfolding readStep_def by fastforce
  from m(2) have "n_id m = n_id n'" by (cases m; cases n') auto
  with eq have "n_id m = n_id n" by simp
  moreover from assms have "inj_on n_id (set (notifications s))"
    by (simp add: notificationsPrimaryKey_def distinct_map)
  ultimately have "m = n" using m(1) n by (auto dest: inj_onD)
  with m(2) show "n' = n\<lparr> n_read := n_read n \<or> n_read n' \<rparr>" by simp
next
  fix n'
  assume n': "n' \<in> set (notifications (notificationService_call c s))"
    and fresh: "n_id n' \<notin> n_id ` set (notifications s)"
  from call_fresh[OF n'] fresh show "\<not> n_read n'" by force
next
  from calls_step[OF assms, of cs]
  show "notificationsPrimaryKey (notificationService_calls cs s)" by simp
qed

theorem notification_read_monotone_witness:
  "notificationsPrimaryKey inbox
   \<and> map n_read (notifications inbox) = [True, False]
   \<and> map (\<lambda>n. (n_id n, n_read n))
        (notifications (notificationService_calls
           [MarkAllAsRead 7, CreateSystemNotification 7 ''Note'' ''text'' 12, DeleteNotification 2]
           inbox))
       = [(1, True), (3, False)]
   \<and> map (\<lambda>n. (n_id n, n_read n))
        (notifications (notificationService_call (CreateSystemNotification 7 ''Note'' ''text'' 12)
           inbox))
       = [(1, True), (2, False), (3, False)]"
proof -
  have pk: "notificationsPrimaryKey inbox"
    by (simp add: notificationsPrimaryKey_def inbox_def)
  have av: "dbAvailable inbox" by (simp add: inbox_def shop_def)
  note notification_read_monotone[OF pk,
      of "[MarkAllAsRead 7, CreateSystemNotification 7 ''Note'' ''text'' 12, DeleteNotification 2]"
         "CreateSystemNotification 7 ''Note'' ''text'' 12"]
  with pk av show ?thesis
    by (simp add: inbox_def shop_def markAllAsRead_notifications deleteNotification_notifications
          createSystemNotification_def create_notifications
          markAllAsRead_def notificationRepository_markAllAsRead_def
          deleteNotification_def notificationRepository_delete_def
          notificationRepository_create_def db_insert_notifications_def Let_def
          orderByDescCreatedAt_def)
qed

end
